theory Spec2Isabelle
  imports Complex_Main
begin

section \<open>Python values: exceptions and dictionaries\<close>

text \<open>
  The notebook is Python. An exception is a value of \<open>pyerror\<close>; a call that may raise
  returns \<open>pyerror + 'a\<close>, with \<open>Inl\<close> the exception. \<open>seq\<close> runs the rest of a function
  body after a call that returned and passes an exception on otherwise: the source has no
  \<open>try\<close> statement anywhere.
\<close>

datatype pyerror =
    KeyError string
  | IndexError string
  | ValueError string
  | TypeError string
  | OverflowError string
  | OSError string
  | RuntimeError string

definition seq :: "pyerror + 'a \<Rightarrow> ('a \<Rightarrow> pyerror + 'b) \<Rightarrow> pyerror + 'b" where
  "seq r k = (case r of Inl e \<Rightarrow> Inl e | Inr v \<Rightarrow> k v)"

text \<open>\<open>d[k]\<close> on a dict: KeyError when the key is missing.\<close>

definition getitem :: "(string \<rightharpoonup> 'v) \<Rightarrow> string \<Rightarrow> pyerror + 'v" where
  "getitem d k = (case d k of None \<Rightarrow> Inl (KeyError k) | Some v \<Rightarrow> Inr v)"

section \<open>The framework as \<open>model_fn\<close> sees it\<close>

datatype ModeKeys = TRAIN | EVAL | PREDICT

datatype activation = relu

datatype dtype = float32 | float64 | np_int

text \<open>
  \<open>tf.estimator.EstimatorSpec\<close> is a named tuple. The record is used for the keyword
  arguments of a constructor call, where a keyword the call leaves out has its default
  \<open>None\<close>, and for the tuple the constructor returns.
\<close>

record ('t, 'm) EstimatorSpec =
  mode :: ModeKeys
  predictions :: "(string \<rightharpoonup> 't) option"
  loss :: "'t option"
  train_op :: "'t option"
  eval_metric_ops :: "(string \<rightharpoonup> 'm) option"

text \<open>
  The TensorFlow calls of \<open>model_fn\<close>. TensorFlow is not part of the repository, so it is a
  parameter: \<open>'t\<close> are its tensors and operations, \<open>'o\<close> its optimizers, \<open>'m\<close> its metrics,
  \<open>'h\<close> the hyperparameter values. Each call builds a graph node from its arguments or
  raises. \<open>labels\<close> may be \<open>None\<close>, so the calls that take it take a \<open>'t option\<close>.
  \<open>spec_check\<close> is what the \<open>EstimatorSpec\<close> constructor checks of the tensors it is given.
\<close>

record ('t, 'o, 'm, 'h) tensorflow =
  layers_dense :: "'t \<Rightarrow> nat \<Rightarrow> activation option \<Rightarrow> pyerror + 't"
  reshape :: "'t \<Rightarrow> int list \<Rightarrow> pyerror + 't"
  losses_mean_squared_error :: "'t option \<Rightarrow> 't \<Rightarrow> pyerror + 't"
  cast :: "'t option \<Rightarrow> dtype \<Rightarrow> pyerror + 't"
  metrics_root_mean_squared_error :: "'t \<Rightarrow> 't \<Rightarrow> pyerror + 'm"
  train_GradientDescentOptimizer :: "'h \<Rightarrow> pyerror + 'o"
  train_get_global_step :: "pyerror + 't option"
  minimize :: "'o \<Rightarrow> 't \<Rightarrow> 't option \<Rightarrow> pyerror + 't"
  spec_check :: "('t, 'm) EstimatorSpec \<Rightarrow> pyerror option"

text \<open>
  The constructor of \<open>EstimatorSpec\<close>. It wants a training operation in TRAIN mode, a loss
  in TRAIN and EVAL mode and predictions in PREDICT mode; it runs the further checks of
  the framework on its arguments; and it stores them, with an empty dict in the place of
  predictions or evaluation metrics that are \<open>None\<close>.
\<close>

definition missing_argument :: "('t, 'm) EstimatorSpec \<Rightarrow> pyerror option" where
  "missing_argument a =
     (if train_op a = None \<and> mode a = TRAIN then Some (ValueError ''Missing train_op.'')
      else if loss a = None \<and> (mode a = TRAIN \<or> mode a = EVAL)
        then Some (ValueError ''Missing loss.'')
      else if predictions a = None \<and> mode a = PREDICT
        then Some (ValueError ''Missing predictions.'')
      else None)"

definition stored :: "('t, 'm) EstimatorSpec \<Rightarrow> ('t, 'm) EstimatorSpec" where
  "stored a =
     a\<lparr>predictions := Some (case predictions a of None \<Rightarrow> Map.empty | Some d \<Rightarrow> d),
       eval_metric_ops := Some (case eval_metric_ops a of None \<Rightarrow> Map.empty | Some d \<Rightarrow> d)\<rparr>"

definition estimator_EstimatorSpec ::
  "('t, 'o, 'm, 'h) tensorflow \<Rightarrow> ('t, 'm) EstimatorSpec \<Rightarrow> pyerror + ('t, 'm) EstimatorSpec" where
  "estimator_EstimatorSpec tf args =
     (case missing_argument args of
        Some e \<Rightarrow> Inl e
      | None \<Rightarrow>
          (case spec_check tf args of Some e \<Rightarrow> Inl e | None \<Rightarrow> Inr (stored args)))"

section \<open>\<open>model_fn\<close>\<close>

text \<open>
  The complete \<open>model_fn\<close> of the notebook, statement by statement. Python evaluates the
  arguments of a call before the call, so \<open>features["x"]\<close> is read before the first dense
  layer is built, \<open>tf.cast(labels, tf.float64)\<close> before the metric, \<open>params["learning_rate"]\<close>
  before the optimizer and \<open>tf.train.get_global_step()\<close> before \<open>minimize\<close>. The fields
  of the spec have the names \<open>mode\<close>, \<open>predictions\<close>, \<open>loss\<close> and \<open>train_op\<close>, so the argument
  \<open>mode\<close> is \<open>md\<close> here and the local variables \<open>predictions\<close>, \<open>loss\<close> and \<open>train_op\<close> are
  \<open>preds\<close>, \<open>ls\<close> and \<open>op\<close>.
\<close>

definition model_fn ::
  "('t, 'o, 'm, 'h) tensorflow \<Rightarrow> (string \<rightharpoonup> 't) \<Rightarrow> 't option \<Rightarrow> ModeKeys \<Rightarrow>
     (string \<rightharpoonup> 'h) \<Rightarrow> pyerror + ('t, 'm) EstimatorSpec" where
  "model_fn tf features labels md params =
     seq (getitem features ''x'') (\<lambda>input_layer.
     seq (layers_dense tf input_layer 10 (Some relu)) (\<lambda>first_hidden_layer.
     seq (layers_dense tf first_hidden_layer 10 (Some relu)) (\<lambda>second_hidden_layer.
     seq (layers_dense tf second_hidden_layer 1 None) (\<lambda>output_layer.
     seq (reshape tf output_layer [- 1]) (\<lambda>preds.
     if md = PREDICT then
       estimator_EstimatorSpec tf
         \<lparr>mode = md, predictions = Some [''ages'' \<mapsto> preds], loss = None,
          train_op = None, eval_metric_ops = None\<rparr>
     else
     seq (losses_mean_squared_error tf labels preds) (\<lambda>ls.
     seq (cast tf labels float64) (\<lambda>labels64.
     seq (metrics_root_mean_squared_error tf labels64 preds) (\<lambda>rmse.
     seq (getitem params ''learning_rate'') (\<lambda>learning_rate.
     seq (train_GradientDescentOptimizer tf learning_rate) (\<lambda>optimizer.
     seq (train_get_global_step tf) (\<lambda>global_step.
     seq (minimize tf optimizer ls global_step) (\<lambda>op.
       estimator_EstimatorSpec tf
         \<lparr>mode = md, predictions = None, loss = Some ls,
          train_op = Some op, eval_metric_ops = Some [''rmse'' \<mapsto> rmse]\<rparr>))))))))))))"

section \<open>A symbolic TensorFlow\<close>

text \<open>
  One instance of the framework, for running \<open>model_fn\<close> on concrete inputs: a call returns
  the graph node it builds, and raises where TensorFlow 1.9 does. A tensor has a shape, a
  list of dimensions, and a dtype. An operation has no value: the shape and the dtype of
  \<open>Minimize\<close> are never read.
\<close>

datatype optimizer = GradientDescentOptimizer rat

datatype tensor =
    Placeholder string "nat list" dtype
  | Dense tensor nat "activation option"
  | Reshape tensor "int list"
  | MeanSquaredError tensor tensor
  | Cast tensor dtype
  | RootMeanSquaredError tensor tensor
  | GlobalStep
  | Minimize optimizer tensor "tensor option"

text \<open>
  The dimensions \<open>tf.reshape\<close> gives a tensor of \<open>n\<close> elements for the requested shape
  \<open>s\<close>: an entry \<open>-1\<close> stands for the dimension that makes the sizes match.
\<close>

definition reshape_dims :: "nat \<Rightarrow> int list \<Rightarrow> nat list" where
  "reshape_dims n s =
     map (\<lambda>d. if d = - 1 then n div prod_list (map nat (filter (\<lambda>k. k \<noteq> - 1) s)) else nat d) s"

definition reshape_ok :: "nat \<Rightarrow> int list \<Rightarrow> bool" where
  "reshape_ok n s =
     (let known = prod_list (map nat (filter (\<lambda>k. k \<noteq> - 1) s));
          holes = length (filter (\<lambda>k. k = - 1) s)
      in list_all (\<lambda>d. - 1 \<le> d) s \<and>
         (if holes = 0 then known = n
          else holes = 1 \<and> 0 < known \<and> n mod known = 0))"

fun shape_of :: "tensor \<Rightarrow> nat list" where
  "shape_of (Placeholder _ s _) = s"
| "shape_of (Dense t units _) = butlast (shape_of t) @ [units]"
| "shape_of (Reshape t s) = reshape_dims (prod_list (shape_of t)) s"
| "shape_of (MeanSquaredError _ _) = []"
| "shape_of (Cast t _) = shape_of t"
| "shape_of (RootMeanSquaredError _ _) = []"
| "shape_of GlobalStep = []"
| "shape_of (Minimize _ _ _) = []"

text \<open>
  The loss converts both of its arguments to float32, and so does the mean inside a
  metric; the global step is an integer.
\<close>

fun dtype_of :: "tensor \<Rightarrow> dtype" where
  "dtype_of (Placeholder _ _ d) = d"
| "dtype_of (Dense t _ _) = dtype_of t"
| "dtype_of (Reshape t _) = dtype_of t"
| "dtype_of (MeanSquaredError _ _) = float32"
| "dtype_of (Cast _ d) = d"
| "dtype_of (RootMeanSquaredError _ _) = float32"
| "dtype_of GlobalStep = np_int"
| "dtype_of (Minimize _ _ _) = float32"

text \<open>\<open>tf.layers.dense\<close> wants an input of rank two or more with a last dimension.\<close>

definition tf_dense :: "tensor \<Rightarrow> nat \<Rightarrow> activation option \<Rightarrow> pyerror + tensor" where
  "tf_dense t units act =
     (if length (shape_of t) < 2 then Inl (ValueError ''dense: expected min_ndim=2'')
      else Inr (Dense t units act))"

definition tf_reshape :: "tensor \<Rightarrow> int list \<Rightarrow> pyerror + tensor" where
  "tf_reshape t s =
     (if reshape_ok (prod_list (shape_of t)) s then Inr (Reshape t s)
      else Inl (ValueError ''reshape: incompatible shape''))"

text \<open>\<open>tf.losses.mean_squared_error\<close> wants labels, of the shape of the predictions.\<close>

definition tf_mean_squared_error :: "tensor option \<Rightarrow> tensor \<Rightarrow> pyerror + tensor" where
  "tf_mean_squared_error labels p =
     (case labels of
        None \<Rightarrow> Inl (ValueError ''labels must not be None.'')
      | Some l \<Rightarrow>
          if shape_of l = shape_of p then Inr (MeanSquaredError l p)
          else Inl (ValueError ''Shapes are incompatible''))"

definition tf_cast :: "tensor option \<Rightarrow> dtype \<Rightarrow> pyerror + tensor" where
  "tf_cast x d =
     (case x of
        None \<Rightarrow> Inl (ValueError ''None values not supported.'')
      | Some t \<Rightarrow> Inr (Cast t d))"

text \<open>
  A metric first drops a last dimension of size one from the argument that has one
  dimension more than the other. \<open>tf.metrics.root_mean_squared_error\<close> then wants equal
  shapes, and it subtracts the predictions from the labels, which wants equal dtypes.
\<close>

definition remove_squeezable_dimensions :: "nat list \<Rightarrow> nat list \<Rightarrow> nat list \<times> nat list" where
  "remove_squeezable_dimensions ls ps =
     (if length ps = length ls + 1 \<and> last ps = 1 then (ls, butlast ps)
      else if length ls = length ps + 1 \<and> last ls = 1 then (butlast ls, ps)
      else (ls, ps))"

definition tf_root_mean_squared_error :: "tensor \<Rightarrow> tensor \<Rightarrow> pyerror + tensor" where
  "tf_root_mean_squared_error l p =
     (case remove_squeezable_dimensions (shape_of l) (shape_of p) of
        (ls, ps) \<Rightarrow>
          if ls \<noteq> ps then Inl (ValueError ''Shapes are incompatible'')
          else if dtype_of l \<noteq> dtype_of p
            then Inl (TypeError ''Input y of Sub Op has type that does not match type of x'')
          else Inr (RootMeanSquaredError l p))"

definition tf_minimize :: "optimizer \<Rightarrow> tensor \<Rightarrow> tensor option \<Rightarrow> pyerror + tensor" where
  "tf_minimize opt l gs = Inr (Minimize opt l gs)"

text \<open>The constructor of \<open>EstimatorSpec\<close> wants a loss of one element.\<close>

definition tf_spec_check :: "(tensor, tensor) EstimatorSpec \<Rightarrow> pyerror option" where
  "tf_spec_check a =
     (case loss a of
        None \<Rightarrow> None
      | Some l \<Rightarrow>
          if prod_list (shape_of l) = 1 then None
          else Some (ValueError ''Loss must be scalar''))"

definition symbolic_tf :: "(tensor, optimizer, tensor, rat) tensorflow" where
  "symbolic_tf =
     \<lparr>layers_dense = tf_dense,
      reshape = tf_reshape,
      losses_mean_squared_error = tf_mean_squared_error,
      cast = tf_cast,
      metrics_root_mean_squared_error = tf_root_mean_squared_error,
      train_GradientDescentOptimizer = (\<lambda>lr. Inr (GradientDescentOptimizer lr)),
      train_get_global_step = Inr (Some GlobalStep),
      minimize = tf_minimize,
      spec_check = tf_spec_check\<rparr>"

section \<open>The notebook's code cells\<close>

text \<open>
  The keyword arguments of \<open>sagemaker.tensorflow.TensorFlow(...)\<close>, the predictor that
  \<open>deploy\<close> returns, the data set that \<open>load_csv_without_header\<close> returns (two arrays and
  their dtypes) and the message \<open>tf.make_tensor_proto\<close> builds. A field of the CSV file
  is a string; \<open>'n\<close> is the type of the numbers numpy makes of the fields. The literal
  \<open>0.001\<close> is the rational it denotes.
\<close>

record estimator =
  entry_point :: string
  role :: string
  framework_version :: string
  training_steps :: nat
  evaluation_steps :: nat
  hyperparameters :: "string \<rightharpoonup> rat"
  train_instance_count :: nat
  train_instance_type :: string

record predictor =
  endpoint :: string

record 'n Dataset =
  data :: "'n list list"
  data_dtype :: dtype
  target :: "'n list"
  target_dtype :: dtype

record 'n TensorProto =
  tensor_values :: "'n list"
  tensor_shape :: "nat list"
  tensor_dtype :: dtype

text \<open>
  The services the cells call: the SageMaker SDK, the local shell, the file system and
  numpy. None of them is part of the repository, so they are a parameter. A call reads
  and changes the state \<open>'w\<close> of the outside world and returns or raises; \<open>'r\<close> is the type
  of an endpoint's response. A failing shell escape raises nothing in IPython.
  \<open>read_csv\<close> gives the rows of a file, each a list of fields, or raises.
  \<open>numpy_convert\<close> makes a number of a dtype from a field, or raises; it reads no state.
\<close>

record ('w, 'n, 'r) platform =
  Session :: "'w \<Rightarrow> (pyerror + unit) \<times> 'w"
  get_execution_role :: "'w \<Rightarrow> (pyerror + string) \<times> 'w"
  upload_data :: "string \<Rightarrow> string \<Rightarrow> 'w \<Rightarrow> (pyerror + string) \<times> 'w"
  shell :: "string \<Rightarrow> string list \<Rightarrow> 'w \<Rightarrow> 'w"
  fit :: "estimator \<Rightarrow> string \<Rightarrow> 'w \<Rightarrow> (pyerror + unit) \<times> 'w"
  deploy :: "estimator \<Rightarrow> nat \<Rightarrow> string \<Rightarrow> 'w \<Rightarrow> (pyerror + predictor) \<times> 'w"
  read_csv :: "string \<Rightarrow> 'w \<Rightarrow> (pyerror + string list list) \<times> 'w"
  numpy_convert :: "dtype \<Rightarrow> string \<Rightarrow> pyerror + 'n"
  predict :: "predictor \<Rightarrow> 'n TensorProto \<Rightarrow> 'w \<Rightarrow> (pyerror + 'r) \<times> 'w"
  delete_endpoint :: "string \<Rightarrow> 'w \<Rightarrow> (pyerror + unit) \<times> 'w"

text \<open>
  A run takes the state of the world and gives the value returned or the exception
  raised, and the new state. \<open>evaluate\<close> is a step that calls no service, and \<open>then_run\<close>
  goes on to the next statement unless the one before raised: executing the cells from
  top to bottom stops at the first exception.
\<close>

type_synonym ('w, 'a) run = "'w \<Rightarrow> (pyerror + 'a) \<times> 'w"

definition evaluate :: "pyerror + 'a \<Rightarrow> ('w, 'a) run" where
  "evaluate r w = (r, w)"

definition then_run :: "('w, 'a) run \<Rightarrow> ('a \<Rightarrow> ('w, 'b) run) \<Rightarrow> ('w, 'b) run" where
  "then_run m k w =
     (case m w of
        (Inl e, w') \<Rightarrow> (Inl e, w')
      | (Inr a, w') \<Rightarrow> k a w')"

text \<open>\<open>xs[i]\<close> for an index that is not negative: IndexError out of range.\<close>

definition getitem_list :: "'a list \<Rightarrow> nat \<Rightarrow> pyerror + 'a" where
  "getitem_list xs i =
     (if i < length xs then Inr (xs ! i) else Inl (IndexError ''index out of bounds''))"

text \<open>
  \<open>np.asarray(row, dtype)\<close> and \<open>np.array(target, dtype)\<close>: the fields are converted in
  order, and the first that is no number of the dtype raises.
\<close>

fun convert_all :: "('a \<Rightarrow> pyerror + 'b) \<Rightarrow> 'a list \<Rightarrow> pyerror + 'b list" where
  "convert_all f [] = Inr []"
| "convert_all f (x # xs) = seq (f x) (\<lambda>y. seq (convert_all f xs) (\<lambda>ys. Inr (y # ys)))"

text \<open>
  \<open>tf.contrib.learn.datasets.base.load_csv_without_header\<close> is TensorFlow's. Its loop
  over the rows of the file: \<open>row.pop(-1)\<close> takes the last field of the row as its target,
  and raises on an empty row; the other fields are converted to the dtype of the
  features. After the loop the targets are converted to their dtype.
\<close>

fun load_rows ::
  "(string \<Rightarrow> pyerror + 'n) \<Rightarrow> string list list \<Rightarrow> pyerror + 'n list list \<times> string list" where
  "load_rows conv [] = Inr ([], [])"
| "load_rows conv (row # rows) =
     (if row = [] then Inl (IndexError ''pop from empty list'')
      else seq (convert_all conv (butlast row)) (\<lambda>features.
           seq (load_rows conv rows) (\<lambda>(d, t). Inr (features # d, last row # t))))"

definition parse_dataset ::
  "(dtype \<Rightarrow> string \<Rightarrow> pyerror + 'n) \<Rightarrow> string list list \<Rightarrow> dtype \<Rightarrow> dtype \<Rightarrow>
     pyerror + 'n Dataset" where
  "parse_dataset conv rows target_dt features_dt =
     seq (load_rows (conv features_dt) rows) (\<lambda>(d, t).
     seq (convert_all (conv target_dt) t) (\<lambda>targets.
       Inr \<lparr>data = d, data_dtype = features_dt, target = targets, target_dtype = target_dt\<rparr>))"

definition load_csv_without_header ::
  "('w, 'n, 'r) platform \<Rightarrow> string \<Rightarrow> dtype \<Rightarrow> dtype \<Rightarrow> ('w, 'n Dataset) run" where
  "load_csv_without_header p filename target_dt features_dt =
     then_run (read_csv p filename) (\<lambda>rows.
     evaluate (parse_dataset (numpy_convert p) rows target_dt features_dt))"

text \<open>
  \<open>tf.make_tensor_proto\<close> with a shape: it raises when there are more values than the
  shape holds. The values it is given here are float32 already.
\<close>

definition make_tensor_proto :: "'n list \<Rightarrow> nat list \<Rightarrow> dtype \<Rightarrow> pyerror + 'n TensorProto" where
  "make_tensor_proto vals shp dt =
     (if prod_list shp < length vals then Inl (ValueError ''Too many elements provided.'')
      else Inr \<lparr>tensor_values = vals, tensor_shape = shp, tensor_dtype = dt\<rparr>)"

definition abalone_estimator :: "string \<Rightarrow> estimator" where
  "abalone_estimator r =
     \<lparr>entry_point = ''abalone.py'',
      role = r,
      framework_version = ''1.9'',
      training_steps = 100,
      evaluation_steps = 100,
      hyperparameters = [''learning_rate'' \<mapsto> 1 / 1000],
      train_instance_count = 1,
      train_instance_type = ''ml.c4.xlarge''\<rparr>"

text \<open>
  The code cells of the notebook, from top to bottom: the session and the role, the
  upload, the shell escape that prints \<open>abalone.py\<close>, the estimator and \<open>fit\<close>, \<open>deploy\<close>, the
  request built from the first row of the prediction set (\<open>np.asarray\<close> of an array is
  the array), \<open>predict\<close>, and the deletion of the endpoint through a new session. The
  variables \<open>role\<close> and \<open>data\<close> are \<open>r\<close> and \<open>row0\<close> here, as record fields have their names.
\<close>

definition notebook :: "('w, 'n, 'r) platform \<Rightarrow> ('w, 'r) run" where
  "notebook p =
     then_run (Session p) (\<lambda>sagemaker_session.
     then_run (get_execution_role p) (\<lambda>r.
     then_run (upload_data p ''data'' ''data/DEMO-abalone'') (\<lambda>inputs.
     then_run (\<lambda>w. (Inr (), shell p ''cat'' [''abalone.py''] w)) (\<lambda>_.
     then_run (fit p (abalone_estimator r) inputs) (\<lambda>_.
     then_run (deploy p (abalone_estimator r) 1 ''ml.m4.xlarge'') (\<lambda>abalone_predictor.
     then_run (load_csv_without_header p ''data/abalone_predict.csv'' np_int float32)
       (\<lambda>prediction_set.
     then_run (evaluate (getitem_list (data prediction_set) 0)) (\<lambda>row0.
     then_run (evaluate (make_tensor_proto row0 [1, length row0] float32)) (\<lambda>tensor_proto.
     then_run (predict p abalone_predictor tensor_proto) (\<lambda>response.
     then_run (Session p) (\<lambda>session.
     then_run (delete_endpoint p (endpoint abalone_predictor)) (\<lambda>_.
     evaluate (Inr response)))))))))))))"

section \<open>The calls of a run\<close>

text \<open>
  To see what a run does to the platform, the platform is made to keep a log: \<open>logged p\<close>
  is the platform \<open>p\<close> whose every call, after it is served, adds itself to a list kept
  beside the state, with its arguments and with what it returned or raised. The
  notebook cannot write the log; only calls of the platform do.
\<close>

datatype ('n, 'r) call =
    Call_Session "pyerror + unit"
  | Call_get_execution_role "pyerror + string"
  | Call_upload_data string string "pyerror + string"
  | Call_shell string "string list"
  | Call_fit estimator string "pyerror + unit"
  | Call_deploy estimator nat string "pyerror + predictor"
  | Call_read_csv string "pyerror + string list list"
  | Call_predict predictor "'n TensorProto" "pyerror + 'r"
  | Call_delete_endpoint string "pyerror + unit"

definition record_call ::
  "('a \<Rightarrow> 'c) \<Rightarrow> ('w \<Rightarrow> 'a \<times> 'w) \<Rightarrow> 'w \<times> 'c list \<Rightarrow> 'a \<times> 'w \<times> 'c list" where
  "record_call c f s =
     (case s of (w, lg) \<Rightarrow> (case f w of (res, w') \<Rightarrow> (res, w', lg @ [c res])))"

definition logged ::
  "('w, 'n, 'r) platform \<Rightarrow> ('w \<times> ('n, 'r) call list, 'n, 'r) platform" where
  "logged p =
     \<lparr>Session = record_call Call_Session (Session p),
      get_execution_role = record_call Call_get_execution_role (get_execution_role p),
      upload_data = (\<lambda>path key_prefix.
        record_call (Call_upload_data path key_prefix) (upload_data p path key_prefix)),
      shell = (\<lambda>cmd args s.
        case s of (w, lg) \<Rightarrow> (shell p cmd args w, lg @ [Call_shell cmd args])),
      fit = (\<lambda>e inputs. record_call (Call_fit e inputs) (fit p e inputs)),
      deploy = (\<lambda>e n t. record_call (Call_deploy e n t) (deploy p e n t)),
      read_csv = (\<lambda>filename. record_call (Call_read_csv filename) (read_csv p filename)),
      numpy_convert = numpy_convert p,
      predict = (\<lambda>pr req. record_call (Call_predict pr req) (predict p pr req)),
      delete_endpoint = (\<lambda>name. record_call (Call_delete_endpoint name) (delete_endpoint p name))\<rparr>"

text \<open>
  Two runs are the same when the one, on a state with a log, returns or raises what the
  other does, leaves the state the other leaves, and only adds to the log.
\<close>

definition same_run :: "('w \<times> 'c list, 'a) run \<Rightarrow> ('w, 'a) run \<Rightarrow> bool" where
  "same_run m m' \<longleftrightarrow>
     (\<forall>w lg. fst (m (w, lg)) = fst (m' w) \<and> fst (snd (m (w, lg))) = snd (m' w) \<and>
        (\<exists>tr. snd (snd (m (w, lg))) = lg @ tr))"

text \<open>
  The five steps of the workflow among the calls; the other calls (sessions, the role,
  the shell escape, reading the CSV file) are none of them. A call returned when it did
  not raise.
\<close>

datatype step = Upload | Train | Deploy | Invoke | Delete

fun step_of :: "('n, 'r) call \<Rightarrow> step option" where
  "step_of (Call_upload_data _ _ _) = Some Upload"
| "step_of (Call_fit _ _ _) = Some Train"
| "step_of (Call_deploy _ _ _ _) = Some Deploy"
| "step_of (Call_predict _ _ _) = Some Invoke"
| "step_of (Call_delete_endpoint _ _) = Some Delete"
| "step_of _ = None"

definition steps :: "('n, 'r) call list \<Rightarrow> step list" where
  "steps tr = List.map_filter step_of tr"


text \<open>
  A small platform for running the notebook on concrete inputs. The state of the world is
  the list of the endpoints that are up; the only file is the prediction CSV, with the
  rows given; a number is a field that is not empty, with its dtype; an endpoint that is
  up answers a request with the number of its values.
\<close>

definition demo_platform ::
  "string list list \<Rightarrow> (string list, string \<times> dtype, nat) platform" where
  "demo_platform csv =
     \<lparr>Session = (\<lambda>w. (Inr (), w)),
      get_execution_role = (\<lambda>w. (Inr ''role'', w)),
      upload_data = (\<lambda>path key_prefix w. (Inr ''s3://bucket/data/DEMO-abalone'', w)),
      shell = (\<lambda>cmd args w. w),
      fit = (\<lambda>e inputs w. (Inr (), w)),
      deploy = (\<lambda>e n t w. (Inr \<lparr>endpoint = ''abalone''\<rparr>, ''abalone'' # w)),
      read_csv = (\<lambda>filename w.
        if filename = ''data/abalone_predict.csv'' then (Inr csv, w)
        else (Inl (OSError ''No such file or directory''), w)),
      numpy_convert = (\<lambda>d field.
        if field = [] then Inl (ValueError ''could not convert string to float'')
        else Inr (field, d)),
      predict = (\<lambda>pr req w.
        if endpoint pr \<in> set w then (Inr (length (tensor_values req)), w)
        else (Inl (RuntimeError ''Could not find endpoint''), w)),
      delete_endpoint = (\<lambda>name w. (Inr (), removeAll name w))\<rparr>"

section \<open>How exceptions and results flow\<close>

lemma seq_Inr: "seq r k = Inr y \<longleftrightarrow> (\<exists>v. r = Inr v \<and> k v = Inr y)"
  by (cases r) (simp_all add: seq_def)

lemma seq_Inl: "seq r k = Inl e \<longleftrightarrow> r = Inl e \<or> (\<exists>v. r = Inr v \<and> k v = Inl e)"
  by (cases r) (simp_all add: seq_def)

lemma getitem_Inr: "getitem d k = Inr v \<longleftrightarrow> d k = Some v"
  by (simp add: getitem_def split: option.splits)

lemma getitem_Inl: "getitem d k = Inl e \<longleftrightarrow> d k = None \<and> e = KeyError k"
  by (auto simp add: getitem_def split: option.splits)

text \<open>The two constructor calls of \<open>model_fn\<close>: what they check and what they store.\<close>

lemma spec_predict_Inr:
  "estimator_EstimatorSpec tf
     \<lparr>mode = PREDICT, predictions = Some d, loss = None, train_op = None,
      eval_metric_ops = None\<rparr> = Inr s \<longleftrightarrow>
   spec_check tf
     \<lparr>mode = PREDICT, predictions = Some d, loss = None, train_op = None,
      eval_metric_ops = None\<rparr> = None \<and>
   s = \<lparr>mode = PREDICT, predictions = Some d, loss = None, train_op = None,
        eval_metric_ops = Some Map.empty\<rparr>"
  by (auto simp add: estimator_EstimatorSpec_def missing_argument_def stored_def
      split: option.splits)

lemma spec_predict_Inl:
  "estimator_EstimatorSpec tf
     \<lparr>mode = PREDICT, predictions = Some d, loss = None, train_op = None,
      eval_metric_ops = None\<rparr> = Inl e \<longleftrightarrow>
   spec_check tf
     \<lparr>mode = PREDICT, predictions = Some d, loss = None, train_op = None,
      eval_metric_ops = None\<rparr> = Some e"
  by (auto simp add: estimator_EstimatorSpec_def missing_argument_def split: option.splits)

lemma spec_train_Inr:
  "md \<noteq> PREDICT \<Longrightarrow>
   estimator_EstimatorSpec tf
     \<lparr>mode = md, predictions = None, loss = Some l, train_op = Some op,
      eval_metric_ops = Some ms\<rparr> = Inr s \<longleftrightarrow>
   spec_check tf
     \<lparr>mode = md, predictions = None, loss = Some l, train_op = Some op,
      eval_metric_ops = Some ms\<rparr> = None \<and>
   s = \<lparr>mode = md, predictions = Some Map.empty, loss = Some l, train_op = Some op,
        eval_metric_ops = Some ms\<rparr>"
  by (auto simp add: estimator_EstimatorSpec_def missing_argument_def stored_def
      split: option.splits)

lemma spec_train_Inl:
  "md \<noteq> PREDICT \<Longrightarrow>
   estimator_EstimatorSpec tf
     \<lparr>mode = md, predictions = None, loss = Some l, train_op = Some op,
      eval_metric_ops = Some ms\<rparr> = Inl e \<longleftrightarrow>
   spec_check tf
     \<lparr>mode = md, predictions = None, loss = Some l, train_op = Some op,
      eval_metric_ops = Some ms\<rparr> = Some e"
  by (auto simp add: estimator_EstimatorSpec_def missing_argument_def split: option.splits)

lemmas symbolic_tf_simps =
  symbolic_tf_def tf_dense_def tf_reshape_def tf_mean_squared_error_def tf_cast_def
  tf_root_mean_squared_error_def tf_minimize_def tf_spec_check_def reshape_ok_def
  reshape_dims_def remove_squeezable_dimensions_def seq_def getitem_def
  estimator_EstimatorSpec_def missing_argument_def stored_def

lemma reshape_flat: "reshape_ok n [- 1] \<and> reshape_dims n [- 1] = [n]"
  by (simp add: reshape_ok_def reshape_dims_def)

lemma tf_dense_shape:
  "tf_dense t u a = Inr t' \<Longrightarrow> shape_of t' = butlast (shape_of t) @ [u]"
  by (auto simp add: tf_dense_def split: if_splits)

lemma tf_reshape_shape:
  "tf_reshape t [- 1] = Inr t' \<Longrightarrow> shape_of t' = [prod_list (shape_of t)]"
  by (auto simp add: tf_reshape_def reshape_flat split: if_splits)

section \<open>What \<open>model_fn\<close> returns\<close>

text \<open>
  C1, as the code has it. The claim is that every returned \<open>EstimatorSpec\<close> bundles
  predictions, loss, a training step and evaluation metrics. The code returns early in
  PREDICT mode, so the bundle depends on the mode. Whenever \<open>model_fn\<close> returns, the spec
  carries the mode of the call. In PREDICT mode its predictions are the dict with the key
  \<open>"ages"\<close> bound to the reshaped output layer, it has no loss and no training step, and
  its evaluation metrics are the empty dict. In TRAIN and EVAL mode its loss is the mean
  squared error of the labels and the reshaped output, its training step is the
  \<open>minimize\<close> of that loss by the gradient-descent optimizer, and its evaluation metrics
  are the dict with the key \<open>"rmse"\<close> bound to the metric.
\<close>

theorem spec_by_mode:
  assumes "model_fn tf features labels md params = Inr spec"
  shows "mode spec = md \<and>
         (md = PREDICT \<longrightarrow>
            (\<exists>h2 out p.
               layers_dense tf h2 1 None = Inr out \<and>
               reshape tf out [- 1] = Inr p \<and>
               predictions spec = Some [''ages'' \<mapsto> p]) \<and>
            loss spec = None \<and> train_op spec = None \<and>
            eval_metric_ops spec = Some Map.empty) \<and>
         (md \<noteq> PREDICT \<longrightarrow>
            (\<exists>h2 out p l l64 m lr opt gs op.
               layers_dense tf h2 1 None = Inr out \<and>
               reshape tf out [- 1] = Inr p \<and>
               losses_mean_squared_error tf labels p = Inr l \<and>
               loss spec = Some l \<and>
               cast tf labels float64 = Inr l64 \<and>
               metrics_root_mean_squared_error tf l64 p = Inr m \<and>
               eval_metric_ops spec = Some [''rmse'' \<mapsto> m] \<and>
               params ''learning_rate'' = Some lr \<and>
               train_GradientDescentOptimizer tf lr = Inr opt \<and>
               train_get_global_step tf = Inr gs \<and>
               minimize tf opt l gs = Inr op \<and>
               train_op spec = Some op))"
proof (cases "md = PREDICT")
  case True
  with assms show ?thesis
    unfolding model_fn_def
    by (auto simp add: seq_Inr getitem_Inr spec_predict_Inr) blast
next
  case False
  with assms show ?thesis
    unfolding model_fn_def
    by (auto simp add: seq_Inr getitem_Inr spec_train_Inr) blast
qed

text \<open>
  A TRAIN call and a PREDICT call on the symbolic framework: both return, and the
  theorem gives the fields of each spec.
\<close>

theorem spec_by_mode_witness:
  "\<not> isl (model_fn symbolic_tf [''x'' \<mapsto> Placeholder ''x'' [3, 7] float64] (Some (Placeholder ''y'' [3] float64)) TRAIN
       [''learning_rate'' \<mapsto> 1 / 1000]) \<and>
   mode (projr (model_fn symbolic_tf [''x'' \<mapsto> Placeholder ''x'' [3, 7] float64] (Some (Placeholder ''y'' [3] float64)) TRAIN
       [''learning_rate'' \<mapsto> 1 / 1000])) = TRAIN \<and>
   loss (projr (model_fn symbolic_tf [''x'' \<mapsto> Placeholder ''x'' [3, 7] float64] (Some (Placeholder ''y'' [3] float64)) TRAIN
       [''learning_rate'' \<mapsto> 1 / 1000])) =
     Some (MeanSquaredError (Placeholder ''y'' [3] float64) (Reshape (Dense (Dense (Dense (Placeholder ''x'' [3, 7] float64) 10 (Some relu)) 10 (Some relu)) 1 None) [- 1])) \<and>
   \<not> isl (model_fn symbolic_tf [''x'' \<mapsto> Placeholder ''x'' [3, 7] float64] None PREDICT Map.empty) \<and>
   mode (projr (model_fn symbolic_tf [''x'' \<mapsto> Placeholder ''x'' [3, 7] float64] None PREDICT Map.empty)) = PREDICT \<and>
   loss (projr (model_fn symbolic_tf [''x'' \<mapsto> Placeholder ''x'' [3, 7] float64] None PREDICT Map.empty)) = None \<and>
   train_op (projr (model_fn symbolic_tf [''x'' \<mapsto> Placeholder ''x'' [3, 7] float64] None PREDICT Map.empty)) = None"
proof -
  let ?t = "model_fn symbolic_tf [''x'' \<mapsto> Placeholder ''x'' [3, 7] float64] (Some (Placeholder ''y'' [3] float64)) TRAIN
              [''learning_rate'' \<mapsto> 1 / 1000]"
  let ?p = "model_fn symbolic_tf [''x'' \<mapsto> Placeholder ''x'' [3, 7] float64] None PREDICT Map.empty"
  have t: "?t = Inr (projr ?t)"
    by (simp add: model_fn_def symbolic_tf_simps)
  have p: "?p = Inr (projr ?p)"
    by (simp add: model_fn_def symbolic_tf_simps)
  have l: "loss (projr ?t) = Some (MeanSquaredError (Placeholder ''y'' [3] float64) (Reshape (Dense (Dense (Dense (Placeholder ''x'' [3, 7] float64) 10 (Some relu)) 10 (Some relu)) 1 None) [- 1]))"
    by (simp add: model_fn_def symbolic_tf_simps)
  from t have "\<not> isl ?t" by (metis sum.disc(2))
  moreover from p have "\<not> isl ?p" by (metis sum.disc(2))
  ultimately show ?thesis
    using spec_by_mode [OF t] spec_by_mode [OF p] l by simp
qed

text \<open>
  The claim as stated fails on a prediction call for one example of seven features: the
  spec returned has no loss and no training step, and its evaluation metrics are empty.
\<close>

theorem predict_spec_has_no_loss:
  "model_fn symbolic_tf [''x'' \<mapsto> Placeholder ''x'' [1, 7] float32] None PREDICT Map.empty =
     Inr \<lparr>mode = PREDICT,
          predictions = Some [''ages'' \<mapsto>
            Reshape (Dense (Dense (Dense (Placeholder ''x'' [1, 7] float32) 10 (Some relu)) 10 (Some relu)) 1 None) [- 1]],
          loss = None, train_op = None, eval_metric_ops = Some Map.empty\<rparr>"
  by (simp add: model_fn_def symbolic_tf_simps)

text \<open>
  C2: the network \<open>model_fn\<close> builds. A call returns a spec exactly when the input layer
  \<open>features["x"]\<close> is there and the following calls return: a dense layer of 10 units with
  ReLU on the input, a dense layer of 10 units with ReLU on the first, a dense layer of
  one unit and no activation on the second, and the reshape of that output to \<open>[-1]\<close>;
  and, outside PREDICT mode, the mean squared error of the labels and the reshaped
  output, the metric, a gradient-descent optimizer made from \<open>params["learning_rate"]\<close>,
  and one \<open>minimize\<close> of that loss by that optimizer; and the constructor of the spec
  accepts its arguments. The spec holds these values.
\<close>

theorem model_fn_network:
  "model_fn tf features labels md params = Inr spec \<longleftrightarrow>
     (\<exists>x h1 h2 out p.
        features ''x'' = Some x \<and>
        layers_dense tf x 10 (Some relu) = Inr h1 \<and>
        layers_dense tf h1 10 (Some relu) = Inr h2 \<and>
        layers_dense tf h2 1 None = Inr out \<and>
        reshape tf out [- 1] = Inr p \<and>
        (if md = PREDICT then
           spec_check tf
             \<lparr>mode = md, predictions = Some [''ages'' \<mapsto> p], loss = None,
              train_op = None, eval_metric_ops = None\<rparr> = None \<and>
           spec = \<lparr>mode = md, predictions = Some [''ages'' \<mapsto> p], loss = None,
                   train_op = None, eval_metric_ops = Some Map.empty\<rparr>
         else
           (\<exists>l l64 m lr opt gs op.
              losses_mean_squared_error tf labels p = Inr l \<and>
              cast tf labels float64 = Inr l64 \<and>
              metrics_root_mean_squared_error tf l64 p = Inr m \<and>
              params ''learning_rate'' = Some lr \<and>
              train_GradientDescentOptimizer tf lr = Inr opt \<and>
              train_get_global_step tf = Inr gs \<and>
              minimize tf opt l gs = Inr op \<and>
              spec_check tf
                \<lparr>mode = md, predictions = None, loss = Some l,
                 train_op = Some op, eval_metric_ops = Some [''rmse'' \<mapsto> m]\<rparr> = None \<and>
              spec = \<lparr>mode = md, predictions = Some Map.empty, loss = Some l,
                      train_op = Some op, eval_metric_ops = Some [''rmse'' \<mapsto> m]\<rparr>)))"
proof (cases "md = PREDICT")
  case True
  then show ?thesis
    unfolding model_fn_def
    by (auto simp add: seq_Inr getitem_Inr spec_predict_Inr)
next
  case False
  then show ?thesis
    unfolding model_fn_def
    by (auto simp add: seq_Inr getitem_Inr spec_train_Inr)
qed

text \<open>
  The graph of a training call on the symbolic framework, for a batch of three examples
  of float64 features and the learning rate of the notebook.
\<close>

theorem model_fn_network_witness:
  "model_fn symbolic_tf [''x'' \<mapsto> Placeholder ''x'' [3, 7] float64] (Some (Placeholder ''y'' [3] float64)) TRAIN
       [''learning_rate'' \<mapsto> 1 / 1000] =
     Inr \<lparr>mode = TRAIN, predictions = Some Map.empty,
          loss = Some (MeanSquaredError (Placeholder ''y'' [3] float64)
            (Reshape (Dense (Dense (Dense (Placeholder ''x'' [3, 7] float64) 10 (Some relu)) 10 (Some relu)) 1 None) [- 1])),
          train_op = Some (Minimize (GradientDescentOptimizer (1 / 1000))
            (MeanSquaredError (Placeholder ''y'' [3] float64)
              (Reshape (Dense (Dense (Dense (Placeholder ''x'' [3, 7] float64) 10 (Some relu)) 10 (Some relu)) 1 None) [- 1]))
            (Some GlobalStep)),
          eval_metric_ops = Some [''rmse'' \<mapsto>
            RootMeanSquaredError (Cast (Placeholder ''y'' [3] float64) float64)
              (Reshape (Dense (Dense (Dense (Placeholder ''x'' [3, 7] float64) 10 (Some relu)) 10 (Some relu)) 1 None) [- 1])]\<rparr>"
proof -
  have lr: "\<exists>lr :: rat. lr * 1000 = 1"
    by (rule exI [of _ "1 / 1000"]) simp
  show ?thesis
    by (subst model_fn_network) (simp add: symbolic_tf_simps lr)
qed

section \<open>Failures of \<open>model_fn\<close>\<close>

text \<open>
  C6: \<open>model_fn\<close> handles no error. It raises \<open>e\<close> exactly when the first statement that
  fails raises \<open>e\<close>: a missing key \<open>"x"\<close> or \<open>"learning_rate"\<close>, or a framework call, in the
  order of the source and with every earlier call returned. So a failure of a call it
  makes reaches the caller unchanged, and it raises nothing that a call did not raise.
\<close>

theorem model_fn_propagates:
  "model_fn tf features labels md params = Inl e \<longleftrightarrow>
     (features ''x'' = None \<and> e = KeyError ''x'') \<or>
     (\<exists>x. features ''x'' = Some x \<and>
       (layers_dense tf x 10 (Some relu) = Inl e \<or>
       (\<exists>h1. layers_dense tf x 10 (Some relu) = Inr h1 \<and>
         (layers_dense tf h1 10 (Some relu) = Inl e \<or>
         (\<exists>h2. layers_dense tf h1 10 (Some relu) = Inr h2 \<and>
           (layers_dense tf h2 1 None = Inl e \<or>
           (\<exists>out. layers_dense tf h2 1 None = Inr out \<and>
             (reshape tf out [- 1] = Inl e \<or>
             (\<exists>p. reshape tf out [- 1] = Inr p \<and>
               (if md = PREDICT then
                  spec_check tf
                    \<lparr>mode = md, predictions = Some [''ages'' \<mapsto> p], loss = None,
                     train_op = None, eval_metric_ops = None\<rparr> = Some e
                else
                  losses_mean_squared_error tf labels p = Inl e \<or>
                  (\<exists>l. losses_mean_squared_error tf labels p = Inr l \<and>
                    (cast tf labels float64 = Inl e \<or>
                    (\<exists>l64. cast tf labels float64 = Inr l64 \<and>
                      (metrics_root_mean_squared_error tf l64 p = Inl e \<or>
                      (\<exists>m. metrics_root_mean_squared_error tf l64 p = Inr m \<and>
                        ((params ''learning_rate'' = None \<and> e = KeyError ''learning_rate'') \<or>
                        (\<exists>lr. params ''learning_rate'' = Some lr \<and>
                          (train_GradientDescentOptimizer tf lr = Inl e \<or>
                          (\<exists>opt. train_GradientDescentOptimizer tf lr = Inr opt \<and>
                            (train_get_global_step tf = Inl e \<or>
                            (\<exists>gs. train_get_global_step tf = Inr gs \<and>
                              (minimize tf opt l gs = Inl e \<or>
                              (\<exists>op. minimize tf opt l gs = Inr op \<and>
                                spec_check tf
                                  \<lparr>mode = md, predictions = None, loss = Some l,
                                   train_op = Some op,
                                   eval_metric_ops = Some [''rmse'' \<mapsto> m]\<rparr> =
                                  Some e)))))))))))))))))))))))"
proof (cases "md = PREDICT")
  case True
  then show ?thesis
    unfolding model_fn_def
    by (simp add: seq_Inl getitem_Inl getitem_Inr spec_predict_Inl)
next
  case False
  then show ?thesis
    unfolding model_fn_def
    by (simp add: seq_Inl getitem_Inl getitem_Inr spec_train_Inl)
qed

text \<open>
  On the symbolic framework: the loss raises on missing labels in a training call, and
  the first dense layer raises on an input of rank one.
\<close>

theorem model_fn_propagates_witness:
  "model_fn symbolic_tf [''x'' \<mapsto> Placeholder ''x'' [3, 7] float64] None TRAIN
       [''learning_rate'' \<mapsto> 1 / 1000] = Inl (ValueError ''labels must not be None.'') \<and>
   model_fn symbolic_tf [''x'' \<mapsto> Placeholder ''x'' [7] float32] None PREDICT Map.empty =
     Inl (ValueError ''dense: expected min_ndim=2'')"
  using
    model_fn_propagates [of symbolic_tf "[''x'' \<mapsto> Placeholder ''x'' [3, 7] float64]" None TRAIN
      "[''learning_rate'' \<mapsto> 1 / 1000]" "ValueError ''labels must not be None.''"]
    model_fn_propagates [of symbolic_tf "[''x'' \<mapsto> Placeholder ''x'' [7] float32]" None
      PREDICT Map.empty "ValueError ''dense: expected min_ndim=2''"]
  by (simp add: symbolic_tf_def tf_dense_def tf_reshape_def tf_mean_squared_error_def
      reshape_flat)

text \<open>
  C9, as the code has it. The claim is that a TRAIN or EVAL call whose hyperparameters
  lack \<open>"learning_rate"\<close> fails with the key lookup error. The lookup is the ninth
  statement of such a call. When the key is missing the call fails, whatever the other
  arguments are: with the exception of the first statement before the lookup that
  raises, and with the KeyError of the key exactly when all of them return (or one of
  them raises that very exception). The hyperparameters the notebook gives the estimator
  have the key, with value 0.001.
\<close>

theorem learning_rate_required:
  assumes "md = TRAIN \<or> md = EVAL" and "params ''learning_rate'' = None"
  shows "(\<exists>e. model_fn tf features labels md params = Inl e) \<and>
         (model_fn tf features labels md params = Inl e \<longleftrightarrow>
            (features ''x'' = None \<and> e = KeyError ''x'') \<or>
            (\<exists>x. features ''x'' = Some x \<and>
              (layers_dense tf x 10 (Some relu) = Inl e \<or>
              (\<exists>h1. layers_dense tf x 10 (Some relu) = Inr h1 \<and>
                (layers_dense tf h1 10 (Some relu) = Inl e \<or>
                (\<exists>h2. layers_dense tf h1 10 (Some relu) = Inr h2 \<and>
                  (layers_dense tf h2 1 None = Inl e \<or>
                  (\<exists>out. layers_dense tf h2 1 None = Inr out \<and>
                    (reshape tf out [- 1] = Inl e \<or>
                    (\<exists>p. reshape tf out [- 1] = Inr p \<and>
                      (losses_mean_squared_error tf labels p = Inl e \<or>
                      (\<exists>l. losses_mean_squared_error tf labels p = Inr l \<and>
                        (cast tf labels float64 = Inl e \<or>
                        (\<exists>l64. cast tf labels float64 = Inr l64 \<and>
                          (metrics_root_mean_squared_error tf l64 p = Inl e \<or>
                          (\<exists>m. metrics_root_mean_squared_error tf l64 p = Inr m \<and>
                             e = KeyError ''learning_rate'')))))))))))))))) \<and>
         getitem (hyperparameters (abalone_estimator r)) ''learning_rate'' = Inr (1 / 1000)"
proof -
  from assms(1) have md: "md \<noteq> PREDICT" by auto
  have "\<not> (\<exists>spec. model_fn tf features labels md params = Inr spec)"
    using md assms(2) unfolding model_fn_def
    by (auto simp add: seq_Inr getitem_Inr)
  then have fails: "\<exists>e. model_fn tf features labels md params = Inl e"
    by (cases "model_fn tf features labels md params") auto
  have which: "model_fn tf features labels md params = Inl e \<longleftrightarrow>
            (features ''x'' = None \<and> e = KeyError ''x'') \<or>
            (\<exists>x. features ''x'' = Some x \<and>
              (layers_dense tf x 10 (Some relu) = Inl e \<or>
              (\<exists>h1. layers_dense tf x 10 (Some relu) = Inr h1 \<and>
                (layers_dense tf h1 10 (Some relu) = Inl e \<or>
                (\<exists>h2. layers_dense tf h1 10 (Some relu) = Inr h2 \<and>
                  (layers_dense tf h2 1 None = Inl e \<or>
                  (\<exists>out. layers_dense tf h2 1 None = Inr out \<and>
                    (reshape tf out [- 1] = Inl e \<or>
                    (\<exists>p. reshape tf out [- 1] = Inr p \<and>
                      (losses_mean_squared_error tf labels p = Inl e \<or>
                      (\<exists>l. losses_mean_squared_error tf labels p = Inr l \<and>
                        (cast tf labels float64 = Inl e \<or>
                        (\<exists>l64. cast tf labels float64 = Inr l64 \<and>
                          (metrics_root_mean_squared_error tf l64 p = Inl e \<or>
                          (\<exists>m. metrics_root_mean_squared_error tf l64 p = Inr m \<and>
                             e = KeyError ''learning_rate'')))))))))))))))"
    using md assms(2) unfolding model_fn_def
    by (simp add: seq_Inl getitem_Inl getitem_Inr)
  have given: "getitem (hyperparameters (abalone_estimator r)) ''learning_rate'' = Inr (1 / 1000)"
    by (simp add: getitem_def abalone_estimator_def)
  from fails which given show ?thesis by blast
qed

text \<open>
  A training call with three examples, their labels and an empty hyperparameter dict:
  every statement before the lookup returns, and the call raises the KeyError.
\<close>

theorem learning_rate_required_witness:
  "(TRAIN = TRAIN \<or> TRAIN = EVAL) \<and> (Map.empty :: string \<rightharpoonup> rat) ''learning_rate'' = None \<and>
   model_fn symbolic_tf [''x'' \<mapsto> Placeholder ''x'' [3, 7] float64] (Some (Placeholder ''y'' [3] float64)) TRAIN
       Map.empty = Inl (KeyError ''learning_rate'') \<and>
   getitem (hyperparameters (abalone_estimator ''role'')) ''learning_rate'' = Inr (1 / 1000)"
  using learning_rate_required [of TRAIN Map.empty symbolic_tf
      "[''x'' \<mapsto> Placeholder ''x'' [3, 7] float64]" "Some (Placeholder ''y'' [3] float64)" "KeyError ''learning_rate''" "''role''"]
  by (simp add: symbolic_tf_def tf_dense_def tf_reshape_def tf_mean_squared_error_def
      tf_cast_def tf_root_mean_squared_error_def remove_squeezable_dimensions_def
      reshape_flat reshape_dims_def)

text \<open>
  The claim as stated fails on a training call without labels and without the key: the
  loss raises before the hyperparameters are read.
\<close>

theorem missing_labels_raise_first:
  "model_fn symbolic_tf [''x'' \<mapsto> Placeholder ''x'' [3, 7] float64] None TRAIN Map.empty =
     Inl (ValueError ''labels must not be None.'')"
  by (simp add: model_fn_def symbolic_tf_simps)

section \<open>Prediction calls\<close>

text \<open>
  C8: in PREDICT mode \<open>model_fn\<close> returns before the loss, so it never reads \<open>labels\<close>: the
  outcome of a call is the outcome of the same call with \<open>labels = None\<close>. With no labels
  the call returns its spec whenever the feature layer is there and the four calls that
  build the network and the constructor of the spec return.
\<close>

theorem predict_ignores_labels:
  "model_fn tf features labels PREDICT params = model_fn tf features None PREDICT params \<and>
   (features ''x'' = Some x \<and>
    layers_dense tf x 10 (Some relu) = Inr h1 \<and>
    layers_dense tf h1 10 (Some relu) = Inr h2 \<and>
    layers_dense tf h2 1 None = Inr out \<and>
    reshape tf out [- 1] = Inr p \<and>
    spec_check tf
      \<lparr>mode = PREDICT, predictions = Some [''ages'' \<mapsto> p], loss = None,
       train_op = None, eval_metric_ops = None\<rparr> = None \<longrightarrow>
    model_fn tf features None PREDICT params =
      Inr \<lparr>mode = PREDICT, predictions = Some [''ages'' \<mapsto> p], loss = None,
           train_op = None, eval_metric_ops = Some Map.empty\<rparr>)"
  by (simp add: model_fn_def seq_def getitem_def spec_predict_Inr)

text \<open>
  A prediction call for one example of seven features, with labels and without: the
  same spec.
\<close>

theorem predict_ignores_labels_witness:
  "model_fn symbolic_tf [''x'' \<mapsto> Placeholder ''x'' [1, 7] float32] (Some (Placeholder ''y'' [1] np_int))
       PREDICT Map.empty =
     model_fn symbolic_tf [''x'' \<mapsto> Placeholder ''x'' [1, 7] float32] None PREDICT Map.empty \<and>
   model_fn symbolic_tf [''x'' \<mapsto> Placeholder ''x'' [1, 7] float32] None PREDICT Map.empty =
     Inr \<lparr>mode = PREDICT,
          predictions = Some [''ages'' \<mapsto>
            Reshape (Dense (Dense (Dense (Placeholder ''x'' [1, 7] float32) 10 (Some relu)) 10 (Some relu)) 1 None) [- 1]],
          loss = None, train_op = None, eval_metric_ops = Some Map.empty\<rparr>"
  using predict_ignores_labels [of symbolic_tf "[''x'' \<mapsto> Placeholder ''x'' [1, 7] float32]"
      "Some (Placeholder ''y'' [1] np_int)" Map.empty "Placeholder ''x'' [1, 7] float32"
      "Dense (Placeholder ''x'' [1, 7] float32) 10 (Some relu)"
      "Dense (Dense (Placeholder ''x'' [1, 7] float32) 10 (Some relu)) 10 (Some relu)"
      "Dense (Dense (Dense (Placeholder ''x'' [1, 7] float32) 10 (Some relu)) 10 (Some relu)) 1 None"
      "Reshape (Dense (Dense (Dense (Placeholder ''x'' [1, 7] float32) 10 (Some relu)) 10 (Some relu)) 1 None) [- 1]"]
  by (simp add: symbolic_tf_def tf_dense_def tf_reshape_def tf_spec_check_def reshape_flat)

text \<open>
  C10, as the code has it. The claim is that the predictions of every PREDICT call have
  as many entries as the batch has examples. Whenever a PREDICT call returns, the
  predictions of the spec are a dict with the one key \<open>"ages"\<close>, bound to the output layer
  reshaped to \<open>[-1]\<close>. For a framework whose dense layer replaces the last dimension of
  its input by the number of units and whose reshape to \<open>[-1]\<close> flattens, as TensorFlow's
  do, that tensor has rank one and its length is the product of the dimensions of
  \<open>features["x"]\<close> but the last: the number \<open>n\<close> of examples when the input has shape
  \<open>[n, d]\<close>.
\<close>

theorem predict_ages:
  assumes ret: "model_fn tf features labels PREDICT params = Inr spec"
    and dense_shape: "\<And>t u a t'. layers_dense tf t u a = Inr t' \<Longrightarrow> sh t' = butlast (sh t) @ [u]"
    and reshape_shape: "\<And>t t'. reshape tf t [- 1] = Inr t' \<Longrightarrow> sh t' = [prod_list (sh t)]"
  shows "\<exists>x h1 h2 out ages d.
           features ''x'' = Some x \<and>
           layers_dense tf x 10 (Some relu) = Inr h1 \<and>
           layers_dense tf h1 10 (Some relu) = Inr h2 \<and>
           layers_dense tf h2 1 None = Inr out \<and>
           reshape tf out [- 1] = Inr ages \<and>
           predictions spec = Some d \<and> dom d = {''ages''} \<and> d ''ages'' = Some ages \<and>
           sh ages = [prod_list (butlast (sh x))] \<and>
           (\<forall>n k. sh x = [n, k] \<longrightarrow> sh ages = [n])"
proof -
  from ret obtain x h1 h2 out ages where
    x: "features ''x'' = Some x"
    and h1: "layers_dense tf x 10 (Some relu) = Inr h1"
    and h2: "layers_dense tf h1 10 (Some relu) = Inr h2"
    and out: "layers_dense tf h2 1 None = Inr out"
    and ages: "reshape tf out [- 1] = Inr ages"
    and spec: "predictions spec = Some [''ages'' \<mapsto> ages]"
    unfolding model_fn_def
    by (auto simp add: seq_Inr getitem_Inr spec_predict_Inr)
  from dense_shape [OF h1] dense_shape [OF h2] dense_shape [OF out]
  have "sh out = butlast (sh x) @ [1]"
    by simp
  with reshape_shape [OF ages] have flat: "sh ages = [prod_list (butlast (sh x))]"
    by simp
  then have batch: "\<forall>n k. sh x = [n, k] \<longrightarrow> sh ages = [n]"
    by simp
  have keys: "dom [''ages'' \<mapsto> ages] = {''ages''}" "[''ages'' \<mapsto> ages] ''ages'' = Some ages"
    by simp_all
  from x h1 h2 out ages spec flat batch keys show ?thesis
    by blast
qed

text \<open>A prediction call for a batch of three examples of seven features.\<close>

theorem predict_ages_witness:
  "model_fn symbolic_tf [''x'' \<mapsto> Placeholder ''x'' [3, 7] float32] None PREDICT Map.empty =
     Inr \<lparr>mode = PREDICT,
          predictions = Some [''ages'' \<mapsto>
            Reshape (Dense (Dense (Dense (Placeholder ''x'' [3, 7] float32) 10 (Some relu)) 10 (Some relu)) 1 None) [- 1]],
          loss = None, train_op = None, eval_metric_ops = Some Map.empty\<rparr> \<and>
   shape_of (Reshape (Dense (Dense (Dense (Placeholder ''x'' [3, 7] float32) 10 (Some relu)) 10 (Some relu)) 1 None) [- 1]) = [3]"
proof -
  let ?fs = "[''x'' \<mapsto> Placeholder ''x'' [3, 7] float32]"
  let ?spec = "\<lparr>mode = PREDICT,
          predictions = Some [''ages'' \<mapsto>
            Reshape (Dense (Dense (Dense (Placeholder ''x'' [3, 7] float32) 10 (Some relu)) 10 (Some relu)) 1 None) [- 1]],
          loss = None, train_op = None,
          eval_metric_ops = Some (Map.empty :: string \<rightharpoonup> tensor)\<rparr>"
  have ret: "model_fn symbolic_tf ?fs None PREDICT Map.empty = Inr ?spec"
    by (simp add: model_fn_def symbolic_tf_simps)
  have dense: "\<And>t u a t'. layers_dense symbolic_tf t u a = Inr t' \<Longrightarrow>
      shape_of t' = butlast (shape_of t) @ [u]"
    by (simp add: symbolic_tf_def tf_dense_shape)
  have flat: "\<And>t t'. reshape symbolic_tf t [- 1] = Inr t' \<Longrightarrow>
      shape_of t' = [prod_list (shape_of t)]"
    by (simp add: symbolic_tf_def tf_reshape_shape)
  from predict_ages [of symbolic_tf ?fs None Map.empty ?spec shape_of, OF ret dense flat]
  have "shape_of (Reshape (Dense (Dense (Dense (Placeholder ''x'' [3, 7] float32) 10 (Some relu)) 10 (Some relu)) 1 None) [- 1]) = [3]"
    by (auto simp add: symbolic_tf_def tf_dense_def tf_reshape_def reshape_flat
        split: if_splits)
  with ret show ?thesis by simp
qed

text \<open>
  The claim as stated fails on an input of rank three: for two examples of three rows of
  seven features the predictions have six entries.
\<close>

theorem rank_three_input:
  "model_fn symbolic_tf [''x'' \<mapsto> Placeholder ''x'' [2, 3, 7] float32] None PREDICT Map.empty =
     Inr \<lparr>mode = PREDICT,
          predictions = Some [''ages'' \<mapsto>
            Reshape (Dense (Dense (Dense (Placeholder ''x'' [2, 3, 7] float32) 10 (Some relu)) 10 (Some relu)) 1 None) [- 1]],
          loss = None, train_op = None, eval_metric_ops = Some Map.empty\<rparr> \<and>
   shape_of (Reshape (Dense (Dense (Dense (Placeholder ''x'' [2, 3, 7] float32) 10 (Some relu)) 10 (Some relu)) 1 None) [- 1]) = [6]"
  by (simp add: model_fn_def symbolic_tf_simps)

section \<open>The run of the notebook\<close>

lemma then_run_record:
  "then_run (record_call c f) k (w, lg) =
     (case f w of
        (Inl e, w') \<Rightarrow> (Inl e, w', lg @ [c (Inl e)])
      | (Inr a, w') \<Rightarrow> k a (w', lg @ [c (Inr a)]))"
  by (simp add: then_run_def record_call_def split: prod.splits sum.splits)

lemma then_run_evaluate:
  "then_run (evaluate r) k s = (case r of Inl e \<Rightarrow> (Inl e, s) | Inr a \<Rightarrow> k a s)"
  by (simp add: then_run_def evaluate_def split: sum.splits)

lemma then_run_assoc:
  "then_run (then_run m k1) k2 = then_run m (\<lambda>a. then_run (k1 a) k2)"
  by (rule ext) (simp add: then_run_def split: prod.splits sum.splits)

lemma then_run_shell:
  "then_run (\<lambda>s. (Inr (), shell (logged p) cmd args s)) k (w, lg) =
     k () (shell p cmd args w, lg @ [Call_shell cmd args])"
  by (simp add: then_run_def logged_def)

lemma logged_calls:
  "Session (logged p) = record_call Call_Session (Session p)"
  "get_execution_role (logged p) = record_call Call_get_execution_role (get_execution_role p)"
  "upload_data (logged p) path key_prefix =
     record_call (Call_upload_data path key_prefix) (upload_data p path key_prefix)"
  "fit (logged p) e inputs = record_call (Call_fit e inputs) (fit p e inputs)"
  "deploy (logged p) e n t = record_call (Call_deploy e n t) (deploy p e n t)"
  "read_csv (logged p) filename = record_call (Call_read_csv filename) (read_csv p filename)"
  "numpy_convert (logged p) = numpy_convert p"
  "predict (logged p) pr req = record_call (Call_predict pr req) (predict p pr req)"
  "delete_endpoint (logged p) name =
     record_call (Call_delete_endpoint name) (delete_endpoint p name)"
  by (simp_all add: logged_def)

lemmas run_simps =
  then_run_assoc then_run_record then_run_evaluate then_run_shell logged_calls evaluate_def

lemmas demo_simps =
  notebook_def load_csv_without_header_def parse_dataset_def demo_platform_def logged_def
  record_call_def then_run_def evaluate_def seq_def getitem_list_def make_tensor_proto_def
  steps_def map_filter_simps



text \<open>
  The log changes nothing: on \<open>logged p\<close> the notebook returns or raises what it does on
  \<open>p\<close> and leaves the state it leaves on \<open>p\<close>.
\<close>

lemma same_run_record: "same_run (record_call c f) f"
  by (simp add: same_run_def record_call_def split: prod.splits)

lemma same_run_evaluate: "same_run (evaluate r) (evaluate r)"
  by (simp add: same_run_def evaluate_def)

lemma same_run_shell:
  "same_run (\<lambda>s. (Inr (), shell (logged p) cmd args s)) (\<lambda>w. (Inr (), shell p cmd args w))"
  by (simp add: same_run_def logged_def)

lemma same_run_then:
  assumes "same_run m m'" and "\<And>a. same_run (k a) (k' a)"
  shows "same_run (then_run m k) (then_run m' k')"
  unfolding same_run_def
proof (intro allI)
  fix w lg
  from assms(1) obtain tr where m: "m (w, lg) = (fst (m' w), snd (m' w), lg @ tr)"
    unfolding same_run_def by (metis prod.collapse)
  show "fst (then_run m k (w, lg)) = fst (then_run m' k' w) \<and>
        fst (snd (then_run m k (w, lg))) = snd (then_run m' k' w) \<and>
        (\<exists>tr. snd (snd (then_run m k (w, lg))) = lg @ tr)"
  proof (cases "fst (m' w)")
    case (Inl e)
    with m show ?thesis
      by (cases "m' w") (auto simp add: then_run_def)
  next
    case (Inr a)
    from assms(2) [of a] obtain tr' where
      k: "k a (snd (m' w), lg @ tr) =
            (fst (k' a (snd (m' w))), snd (k' a (snd (m' w))), (lg @ tr) @ tr')"
      unfolding same_run_def by (metis prod.collapse)
    from Inr m k show ?thesis
      by (cases "m' w") (auto simp add: then_run_def)
  qed
qed

lemma logged_run:
  assumes "notebook (logged p) (w, []) = (r, w', tr)"
  shows "notebook p w = (r, w')"
proof -
  have "same_run (notebook (logged p)) (notebook p)"
    unfolding notebook_def load_csv_without_header_def logged_calls
    by (intro same_run_then same_run_record same_run_evaluate same_run_shell)
  with assms show ?thesis
    unfolding same_run_def by (metis fst_conv snd_conv prod.collapse)
qed

text \<open>What \<open>load_csv_without_header\<close> makes of the rows, and of the first row.\<close>

lemma convert_all_Inr:
  "convert_all f xs = Inr ys \<Longrightarrow> list_all2 (\<lambda>x y. f x = Inr y) xs ys"
  by (induction xs arbitrary: ys) (auto simp add: seq_Inr)

lemma load_rows_Inr:
  "load_rows conv rows = Inr (d, t) \<Longrightarrow>
     [] \<notin> set rows \<and> t = map last rows \<and>
     list_all2 (\<lambda>row features. convert_all conv (butlast row) = Inr features) rows d"
proof (induction rows arbitrary: d t)
  case Nil
  then show ?case by simp
next
  case (Cons row rows)
  from Cons.prems obtain features d' t' where
    row: "row \<noteq> []" and f: "convert_all conv (butlast row) = Inr features"
    and rest: "load_rows conv rows = Inr (d', t')"
    and d: "d = features # d'" and t: "t = last row # t'"
    by (auto simp add: seq_Inr split: if_splits)
  from Cons.IH [OF rest] row f d t show ?case by auto
qed

lemma first_row:
  assumes "parse_dataset conv rows tdt fdt = Inr ds"
    and "getitem_list (data ds) 0 = Inr row0"
  shows "rows \<noteq> [] \<and> hd rows \<noteq> [] \<and> data ds \<noteq> [] \<and> row0 = hd (data ds) \<and>
         convert_all (conv fdt) (butlast (hd rows)) = Inr row0 \<and>
         length row0 = length (hd rows) - 1 \<and>
         convert_all (conv tdt) (map last rows) = Inr (target ds) \<and>
         data_dtype ds = fdt \<and> target_dtype ds = tdt"
proof -
  from assms(1) obtain d t targets where
    lr: "load_rows (conv fdt) rows = Inr (d, t)"
    and ts: "convert_all (conv tdt) t = Inr targets"
    and ds: "ds = \<lparr>data = d, data_dtype = fdt, target = targets, target_dtype = tdt\<rparr>"
    by (auto simp add: parse_dataset_def seq_Inr)
  from load_rows_Inr [OF lr] have ne: "[] \<notin> set rows" and t: "t = map last rows"
    and all: "list_all2 (\<lambda>row features. convert_all (conv fdt) (butlast row) = Inr features) rows d"
    by auto
  from assms(2) ds have d: "d \<noteq> []" and row0: "row0 = hd d"
    by (auto simp add: getitem_list_def hd_conv_nth split: if_splits)
  from all d obtain row rows' f d' where rows: "rows = row # rows'" and dd: "d = f # d'"
    and conv: "convert_all (conv fdt) (butlast row) = Inr f"
    by (cases rows; cases d) auto
  from convert_all_Inr [OF conv] have "length (butlast row) = length f"
    by (rule list_all2_lengthD)
  then have "length f = length row - 1"
    by simp
  with rows dd conv ne row0 ts t ds d show ?thesis by auto
qed

text \<open>The request of a call of the endpoint, and when the endpoint is called.\<close>

lemma predict_call:
  assumes "notebook (logged p) (w, []) = (r, w', tr)"
    and "Call_predict pr req res \<in> set tr"
  shows "\<exists>e rows ds.
           Call_deploy e 1 ''ml.m4.xlarge'' (Inr pr) \<in> set tr \<and>
           Call_read_csv ''data/abalone_predict.csv'' (Inr rows) \<in> set tr \<and>
           parse_dataset (numpy_convert p) rows np_int float32 = Inr ds \<and>
           getitem_list (data ds) 0 = Inr (tensor_values req) \<and>
           req = \<lparr>tensor_values = hd (data ds),
                  tensor_shape = [1, length (hd (data ds))],
                  tensor_dtype = float32\<rparr>"
  using assms
  unfolding notebook_def load_csv_without_header_def
  apply (simp add: run_simps make_tensor_proto_def
      split: prod.splits sum.splits if_splits)
  apply (auto dest: first_row)
  done





text \<open>
  The arguments of the training and hosting calls (the first half of C4): \<open>fit\<close> is called
  on the estimator of the notebook, made with the role that \<open>get_execution_role\<close>
  returned, and on the inputs that \<open>upload_data\<close> returned; \<open>deploy\<close> asks for one
  \<open>ml.m4.xlarge\<close> instance of an estimator that was fitted. What the endpoint answers is
  the platform's.
\<close>

lemma fit_and_deploy_arguments:
  assumes "notebook (logged p) (w, []) = (r, w', tr)"
  shows "(\<forall>e inputs res. Call_fit e inputs res \<in> set tr \<longrightarrow>
            Call_get_execution_role (Inr (role e)) \<in> set tr \<and>
            Call_upload_data ''data'' ''data/DEMO-abalone'' (Inr inputs) \<in> set tr \<and>
            entry_point e = ''abalone.py'' \<and> framework_version e = ''1.9'' \<and>
            training_steps e = 100 \<and> evaluation_steps e = 100 \<and>
            hyperparameters e = [''learning_rate'' \<mapsto> 1 / 1000] \<and>
            train_instance_count e = 1 \<and> train_instance_type e = ''ml.c4.xlarge'') \<and>
         (\<forall>e n t res. Call_deploy e n t res \<in> set tr \<longrightarrow>
            n = 1 \<and> t = ''ml.m4.xlarge'' \<and> (\<exists>inputs. Call_fit e inputs (Inr ()) \<in> set tr))"
  using assms
  unfolding notebook_def load_csv_without_header_def
  by (auto simp add: run_simps abalone_estimator_def split: prod.splits sum.splits)






text \<open>
  C7, as the code has it. The claim is that the request has shape \<open>[1, 7]\<close>. The code
  takes the shape from the file: the request of a call of the endpoint holds, as float32
  numbers and in one example, the fields of the first row of the CSV file but the last,
  so its shape is \<open>[1, n - 1]\<close> for a first row of \<open>n\<close> fields; that is \<open>[1, 7]\<close> exactly
  when the row has eight fields. The last fields of the rows, as integers, are the
  targets of the data set, and are not in the request.
\<close>

theorem request_features:
  assumes "notebook (logged p) (w, []) = (r, w', tr)"
    and "Call_predict pr req res \<in> set tr"
  shows "\<exists>rows ds.
           Call_read_csv ''data/abalone_predict.csv'' (Inr rows) \<in> set tr \<and>
           rows \<noteq> [] \<and> hd rows \<noteq> [] \<and>
           convert_all (numpy_convert p float32) (butlast (hd rows)) = Inr (tensor_values req) \<and>
           tensor_shape req = [1, length (hd rows) - 1] \<and>
           tensor_dtype req = float32 \<and>
           (tensor_shape req = [1, 7] \<longleftrightarrow> length (hd rows) = 8) \<and>
           parse_dataset (numpy_convert p) rows np_int float32 = Inr ds \<and>
           convert_all (numpy_convert p np_int) (map last rows) = Inr (target ds) \<and>
           data_dtype ds = float32 \<and> target_dtype ds = np_int"
proof -
  from predict_call [OF assms] obtain e rows ds where
    c: "Call_read_csv ''data/abalone_predict.csv'' (Inr rows) \<in> set tr"
    and ds: "parse_dataset (numpy_convert p) rows np_int float32 = Inr ds"
    and r0: "getitem_list (data ds) 0 = Inr (tensor_values req)"
    and req: "req = \<lparr>tensor_values = hd (data ds),
                  tensor_shape = [1, length (hd (data ds))],
                  tensor_dtype = float32\<rparr>"
    by blast
  note first = first_row [OF ds r0]
  from first req have shape: "tensor_shape req = [1, length (hd rows) - 1]"
    by (cases req) simp
  from first have "hd rows \<noteq> []" by simp
  then have "0 < length (hd rows)" by simp
  with shape have seven: "tensor_shape req = [1, 7] \<longleftrightarrow> length (hd rows) = 8"
    by auto
  from req have "tensor_dtype req = float32" by simp
  with c ds first shape seven show ?thesis by blast
qed

text \<open>A run on a CSV file whose row has the eight fields of the abalone data.\<close>

theorem request_features_witness:
  "Call_predict \<lparr>endpoint = ''abalone''\<rparr>
     \<lparr>tensor_values = [(''0.435'', float32), (''0.335'', float32), (''0.11'', float32), (''0.334'', float32), (''0.1355'', float32), (''0.0775'', float32), (''0.0965'', float32)],
      tensor_shape = [1, 7], tensor_dtype = float32\<rparr> (Inr 7)
     \<in> set (snd (snd (notebook (logged (demo_platform [[''0.435'', ''0.335'', ''0.11'', ''0.334'', ''0.1355'', ''0.0775'', ''0.0965'', ''7'']])) ([], [])))) \<and>
   length (hd [[''0.435'', ''0.335'', ''0.11'', ''0.334'', ''0.1355'', ''0.0775'', ''0.0965'', ''7'']]) = 8"
proof -
  let ?run = "notebook (logged (demo_platform [[''0.435'', ''0.335'', ''0.11'', ''0.334'', ''0.1355'', ''0.0775'', ''0.0965'', ''7'']])) ([], [])"
  let ?req = "\<lparr>tensor_values = [(''0.435'', float32), (''0.335'', float32), (''0.11'', float32), (''0.334'', float32), (''0.1355'', float32), (''0.0775'', float32), (''0.0965'', float32)],
      tensor_shape = [1, 7], tensor_dtype = float32\<rparr>"
  have run: "?run = (fst ?run, fst (snd ?run), snd (snd ?run))"
    by simp
  have sent: "Call_predict \<lparr>endpoint = ''abalone''\<rparr> ?req (Inr 7) \<in> set (snd (snd ?run))"
    by (simp add: demo_simps)
  from request_features [OF run sent]
  show ?thesis using sent by simp
qed

text \<open>
  The claim as stated fails on a CSV file whose first row has three fields: the request
  has shape \<open>[1, 2]\<close>.
\<close>

theorem row_of_three_fields:
  "Call_predict \<lparr>endpoint = ''abalone''\<rparr>
     \<lparr>tensor_values = [(''0.435'', float32), (''0.335'', float32)],
      tensor_shape = [1, 2], tensor_dtype = float32\<rparr> (Inr 2)
     \<in> set (snd (snd (notebook (logged (demo_platform [[''0.435'', ''0.335'', ''7'']]))
         ([], []))))"
  by (simp add: demo_simps)

end
